theory Spec2Isabelle
  imports Complex_Main "HOL-Library.AList"
begin

section \<open>JavaScript values of the dashboard front end\<close>

text \<open>
  A string is the list of its code units (\<open>String.prototype.length\<close> is the length of
  that list); the code units modelled are those below 256. A value of the TypeScript type
  \<open>number\<close> that the user interface handles (page index, page size, DMA code) is an integer
  or \<open>NaN\<close>, the result of \<open>parseInt\<close> on a text with no leading digits.
\<close>

datatype jsnum = Num int | NaN

datatype jsval = VUndefined | VNull | VStr string | VNum jsnum | VBool bool

datatype error = TypeError

fun jsnum_add :: "jsnum \<Rightarrow> jsnum \<Rightarrow> jsnum" where
  "jsnum_add (Num a) (Num b) = Num (a + b)"
| "jsnum_add _ _ = NaN"

fun jsnum_sub :: "jsnum \<Rightarrow> jsnum \<Rightarrow> jsnum" where
  "jsnum_sub (Num a) (Num b) = Num (a - b)"
| "jsnum_sub _ _ = NaN"

definition digit_char :: "nat \<Rightarrow> char" where
  "digit_char d = ''0123456789'' ! d"

fun string_of_nat :: "nat \<Rightarrow> string" where
  "string_of_nat n =
     (if n < 10 then [digit_char n] else string_of_nat (n div 10) @ [digit_char (n mod 10)])"

text \<open>\<open>Number.prototype.toString()\<close> on an integer or \<open>NaN\<close>.\<close>

fun jsnum_toString :: "jsnum \<Rightarrow> string" where
  "jsnum_toString NaN = ''NaN''"
| "jsnum_toString (Num i) =
     (if i < 0 then CHR ''-'' # string_of_nat (nat (- i)) else string_of_nat (nat i))"

text \<open>
  \<open>value.toString()\<close>: a method call on \<open>undefined\<close> or \<open>null\<close> throws a TypeError.
\<close>

fun toString :: "jsval \<Rightarrow> error + string" where
  "toString VUndefined = Inl TypeError"
| "toString VNull = Inl TypeError"
| "toString (VStr s) = Inr s"
| "toString (VNum n) = Inr (jsnum_toString n)"
| "toString (VBool b) = Inr (if b then ''true'' else ''false'')"

subsection \<open>\<open>URLSearchParams\<close>\<close>

text \<open>
  The object is the list of its name/value pairs in insertion order; \<open>append\<close> adds a pair
  at the end, and \<open>toString\<close> is the application/x-www-form-urlencoded serialisation:
  the bytes of the UTF-8 encoding, letters, digits and \<open>* - . _\<close> kept, a space written
  \<open>+\<close>, every other byte as \<open>%XX\<close> in upper-case hexadecimal.
\<close>

type_synonym params = "(string \<times> string) list"

definition new_URLSearchParams :: params where
  "new_URLSearchParams = []"

definition append :: "string \<Rightarrow> string \<Rightarrow> params \<Rightarrow> params" where
  "append k v ps = ps @ [(k, v)]"

definition form_safe :: "char \<Rightarrow> bool" where
  "form_safe c =
     (let n = (of_char c :: nat) in
        (48 \<le> n \<and> n \<le> 57) \<or> (65 \<le> n \<and> n \<le> 90) \<or> (97 \<le> n \<and> n \<le> 122)
        \<or> n = 42 \<or> n = 45 \<or> n = 46 \<or> n = 95)"

definition hex_digit :: "nat \<Rightarrow> char" where
  "hex_digit d = ''0123456789ABCDEF'' ! d"

definition percent_byte :: "nat \<Rightarrow> string" where
  "percent_byte b = [CHR ''%'', hex_digit (b div 16), hex_digit (b mod 16)]"

definition utf8_bytes :: "char \<Rightarrow> nat list" where
  "utf8_bytes c =
     (let n = (of_char c :: nat) in
        if n < 128 then [n] else [192 + n div 64, 128 + n mod 64])"

definition encode_char :: "char \<Rightarrow> string" where
  "encode_char c =
     (if form_safe c then [c]
      else if c = CHR '' '' then ''+''
      else concat (map percent_byte (utf8_bytes c)))"

definition urlencode :: "string \<Rightarrow> string" where
  "urlencode s = concat (map encode_char s)"

fun join_amp :: "string list \<Rightarrow> string" where
  "join_amp [] = []"
| "join_amp [x] = x"
| "join_amp (x # y # zs) = x @ ''&'' @ join_amp (y # zs)"

definition params_toString :: "params \<Rightarrow> string" where
  "params_toString ps = join_amp (map (\<lambda>(k, v). urlencode k @ ''='' @ urlencode v) ps)"

subsection \<open>Objects\<close>

text \<open>
  A \<open>Filters\<close> object is the list of its own properties in insertion order, which is the
  order \<open>Object.entries\<close> enumerates (no key of \<open>Filters\<close> is an array index). Assignment
  to a property keeps the position of an existing key and adds a new key at the end;
  \<open>delete\<close> removes the key; \<open>{ ...filters }\<close> copies the list.
\<close>

type_synonym filters = "(string \<times> jsval) list"

text \<open>An object holds each of its keys once.\<close>

definition wf_object :: "filters \<Rightarrow> bool" where
  "wf_object fs = distinct (map fst fs)"

section \<open>\<open>services/api.ts\<close>\<close>

text \<open>
  The network is the sequence of requests sent so far: \<open>api.get\<close> of the axios instance
  and the browser's \<open>fetch\<close>, each with the URL it was given.
\<close>

datatype request = Axios_get string | Fetch string

type_synonym network = "request list"

definition api_get :: "string \<Rightarrow> network \<Rightarrow> network" where
  "api_get url net = net @ [Axios_get url]"

definition fetch :: "string \<Rightarrow> network \<Rightarrow> network" where
  "fetch url net = net @ [Fetch url]"

text \<open>
  The body of the \<open>forEach\<close> callback of \<open>getPOIs\<close> and \<open>getSummaryStats\<close>
  (api.ts lines 21-25 and 34-38), and the loop over \<open>Object.entries(filters)\<close>.
\<close>

definition append_entry :: "string \<times> jsval \<Rightarrow> params \<Rightarrow> error + params" where
  "append_entry e ps =
     (case e of (key, val) \<Rightarrow>
        if val \<noteq> VUndefined \<and> val \<noteq> VNull \<and> val \<noteq> VStr ''''
        then (case toString val of Inl err \<Rightarrow> Inl err | Inr s \<Rightarrow> Inr (append key s ps))
        else Inr ps)"

fun forEach_entries :: "filters \<Rightarrow> params \<Rightarrow> error + params" where
  "forEach_entries [] ps = Inr ps"
| "forEach_entries (e # es) ps =
     (case append_entry e ps of Inl err \<Rightarrow> Inl err | Inr ps' \<Rightarrow> forEach_entries es ps')"

definition getPOIs_params :: "jsnum \<Rightarrow> jsnum \<Rightarrow> filters \<Rightarrow> error + params" where
  "getPOIs_params page limit fs =
     forEach_entries fs
       (append ''limit'' (jsnum_toString limit)
         (append ''page'' (jsnum_toString page) new_URLSearchParams))"

definition getPOIs_url :: "jsnum \<Rightarrow> jsnum \<Rightarrow> filters \<Rightarrow> error + string" where
  "getPOIs_url page limit fs =
     (case getPOIs_params page limit fs of
        Inl err \<Rightarrow> Inl err
      | Inr ps \<Rightarrow> Inr (''/api/v1/pois?'' @ params_toString ps))"

definition getPOIs :: "jsnum \<Rightarrow> jsnum \<Rightarrow> filters \<Rightarrow> network \<Rightarrow> error + network" where
  "getPOIs page limit fs net =
     (case getPOIs_url page limit fs of
        Inl err \<Rightarrow> Inl err
      | Inr url \<Rightarrow> Inr (api_get url net))"

definition getSummaryStats_params :: "filters \<Rightarrow> error + params" where
  "getSummaryStats_params fs = forEach_entries fs new_URLSearchParams"

definition getSummaryStats_url :: "filters \<Rightarrow> error + string" where
  "getSummaryStats_url fs =
     (case getSummaryStats_params fs of
        Inl err \<Rightarrow> Inl err
      | Inr ps \<Rightarrow> Inr (''/api/v1/pois/summary?'' @ params_toString ps))"

definition getSummaryStats :: "filters \<Rightarrow> network \<Rightarrow> error + network" where
  "getSummaryStats fs net =
     (case getSummaryStats_url fs of
        Inl err \<Rightarrow> Inl err
      | Inr url \<Rightarrow> Inr (api_get url net))"

text \<open>
  \<open>getAutocomplete(query, field?)\<close>: the optional \<open>field\<close> is \<open>None\<close> when the caller
  passes none; \<open>if (field)\<close> holds for a non-empty string.
\<close>

definition getAutocomplete_url :: "string \<Rightarrow> string option \<Rightarrow> string" where
  "getAutocomplete_url query field =
     (let ps = append ''query'' query new_URLSearchParams;
          ps' = (case field of
                   None \<Rightarrow> ps
                 | Some f \<Rightarrow> if f \<noteq> '''' then append ''field'' f ps else ps)
      in ''/api/v1/pois/autocomplete?'' @ params_toString ps')"

definition getAutocomplete :: "string \<Rightarrow> string option \<Rightarrow> network \<Rightarrow> network" where
  "getAutocomplete query field net = api_get (getAutocomplete_url query field) net"

section \<open>\<open>types/poi.ts\<close>\<close>

text \<open>
  The rows arrive as JSON: an integer field is an \<open>int\<close>, a fractional one a \<open>real\<close>,
  and \<open>null\<close> is \<open>None\<close>.
\<close>

record POI =
  entity_id :: string
  name :: string
  chain_name :: string
  sub_category :: string
  dma :: "int option"
  city :: string
  state_name :: string
  foot_traffic :: int
  is_open :: bool
  sales :: real
  avg_dwell_time_min :: real
  area_sqft :: real
  ft_per_sqft :: real
  street_address :: string
  postal_code :: string
  date_opened :: "string option"
  date_closed :: "string option"

text \<open>
  \<open>response_page\<close> is the field \<open>page\<close> of the response; the plain name is the
  dashboard's state variable below.
\<close>

record PaginatedPOIResponse =
  items :: "POI list"
  total :: int
  response_page :: int
  limit :: int
  total_pages :: int

record SummaryStats =
  total_venues :: int
  total_foot_traffic :: int
  total_sales :: real
  avg_dwell_time :: real
  open_venues :: int
  closed_venues :: int
  unique_chains :: int
  unique_dmas :: int

section \<open>\<open>components/Dashboard.tsx\<close>\<close>

text \<open>
  The state hooks the handlers write: \<open>filters\<close>, \<open>page\<close> and \<open>rowsPerPage\<close>, with their
  initial values. The two \<open>set\<close> calls of a handler are applied together before the next
  render, so a handler is one step on this record.
\<close>

record dashboard =
  filters :: filters
  page :: jsnum
  rowsPerPage :: jsnum

definition initial_dashboard :: dashboard where
  "initial_dashboard = \<lparr>filters = [], page = Num 1, rowsPerPage = Num 20\<rparr>"

definition handleFiltersChange :: "filters \<Rightarrow> dashboard \<Rightarrow> dashboard" where
  "handleFiltersChange newFilters s = (s\<lparr>filters := newFilters\<rparr>)\<lparr>page := Num 1\<rparr>"

definition handlePageChange :: "jsnum \<Rightarrow> dashboard \<Rightarrow> dashboard" where
  "handlePageChange newPage s = s\<lparr>page := newPage\<rparr>"

definition handleRowsPerPageChange :: "jsnum \<Rightarrow> dashboard \<Rightarrow> dashboard" where
  "handleRowsPerPageChange newRowsPerPage s =
     (s\<lparr>rowsPerPage := newRowsPerPage\<rparr>)\<lparr>page := Num 1\<rparr>"

text \<open>The effects that follow a render: the requests built from the current state.\<close>

definition loadPOIData :: "dashboard \<Rightarrow> network \<Rightarrow> error + network" where
  "loadPOIData s net = getPOIs (page s) (rowsPerPage s) (filters s) net"

definition loadSummaryStats :: "dashboard \<Rightarrow> network \<Rightarrow> error + network" where
  "loadSummaryStats s net = getSummaryStats (filters s) net"

section \<open>\<open>components/POIFilters.tsx\<close>\<close>

text \<open>
  \<open>handleFilterChange(key, value)\<close> copies the \<open>filters\<close> prop, deletes or assigns the
  key, and hands the copy to \<open>onFiltersChange\<close>, which the dashboard binds to
  \<open>handleFiltersChange\<close>. \<open>newFilters_of\<close> is the object handed over.
\<close>

definition newFilters_of :: "string \<Rightarrow> jsval \<Rightarrow> filters \<Rightarrow> filters" where
  "newFilters_of key val fs =
     (if val = VStr '''' \<or> val = VNull \<or> val = VUndefined
      then AList.delete key fs
      else AList.update key val fs)"

definition handleFilterChange :: "string \<Rightarrow> jsval \<Rightarrow> dashboard \<Rightarrow> dashboard" where
  "handleFilterChange key val s = handleFiltersChange (newFilters_of key val (filters s)) s"

definition clearAllFilters :: "dashboard \<Rightarrow> dashboard" where
  "clearAllFilters s = handleFiltersChange [] s"

text \<open>The \<open>onChange\<close> handler of the Status select (lines 243-250) and its displayed value.\<close>

definition status_onChange :: "string \<Rightarrow> dashboard \<Rightarrow> dashboard" where
  "status_onChange v s =
     (if v = '''' then handleFilterChange ''is_open'' VUndefined s
      else handleFilterChange ''is_open'' (VBool (v = ''true'')) s)"

text \<open>
  The local state of the filter panel, and \<open>handleSearchChange\<close>. The awaited reply of
  the autocomplete request is \<open>Some\<close> suggestions, or \<open>None\<close> when the promise is
  rejected and the \<open>catch\<close> block only logs.
\<close>

record filter_panel =
  autocompleteOptions :: "string list"
  searchValue :: string

definition handleSearchChange ::
  "string \<Rightarrow> string list option \<Rightarrow> filter_panel \<times> network \<Rightarrow> filter_panel \<times> network" where
  "handleSearchChange v reply st =
     (case st of (ui, net) \<Rightarrow>
        let ui1 = ui\<lparr>searchValue := v\<rparr> in
        if length v \<ge> 2
        then (let net1 = getAutocomplete v None net in
              case reply of
                Some suggestions \<Rightarrow> (ui1\<lparr>autocompleteOptions := suggestions\<rparr>, net1)
              | None \<Rightarrow> (ui1, net1))
        else (ui1\<lparr>autocompleteOptions := []\<rparr>, net))"

section \<open>\<open>components/POITable.tsx\<close>\<close>

text \<open>
  \<open>parseInt(text, 10)\<close>: leading white space is skipped, one sign is read, and the longest
  run of decimal digits that follows is the value; with no digit the result is \<open>NaN\<close>.
\<close>

definition is_space :: "char \<Rightarrow> bool" where
  "is_space c = ((of_char c :: nat) \<in> {9, 10, 11, 12, 13, 32, 160})"

definition is_digit :: "char \<Rightarrow> bool" where
  "is_digit c = (48 \<le> (of_char c :: nat) \<and> (of_char c :: nat) \<le> 57)"

definition digits_value :: "string \<Rightarrow> nat" where
  "digits_value ds = foldl (\<lambda>a c. 10 * a + ((of_char c :: nat) - 48)) 0 ds"

definition parseInt10 :: "string \<Rightarrow> jsnum" where
  "parseInt10 s =
     (let t = dropWhile is_space s;
          neg = (t \<noteq> [] \<and> hd t = CHR ''-'');
          u = (if t \<noteq> [] \<and> (hd t = CHR ''-'' \<or> hd t = CHR ''+'') then tl t else t);
          ds = takeWhile is_digit u
      in if ds = [] then NaN
         else if neg then Num (- int (digits_value ds)) else Num (int (digits_value ds)))"

text \<open>
  The table's props \<open>onPageChange\<close> and \<open>onRowsPerPageChange\<close> are the dashboard's
  \<open>handlePageChange\<close> and \<open>handleRowsPerPageChange\<close> (Dashboard.tsx lines 186-191).
  \<open>newPage\<close> is the zero-based index the pagination control reports.
\<close>

definition handleChangePage :: "int \<Rightarrow> dashboard \<Rightarrow> dashboard" where
  "handleChangePage newPage s = handlePageChange (Num (newPage + 1)) s"

definition handleChangeRowsPerPage :: "string \<Rightarrow> dashboard \<Rightarrow> dashboard" where
  "handleChangeRowsPerPage v s =
     handlePageChange (Num 1) (handleRowsPerPageChange (parseInt10 v) s)"

text \<open>The \<open>page\<close> prop given to \<open>TablePagination\<close> (line 202).\<close>

definition TablePagination_page :: "PaginatedPOIResponse \<Rightarrow> int" where
  "TablePagination_page d = response_page d - 1"

text \<open>
  The DMA cell (line 150), \<open>poi.dma || 'N/A'\<close>: the left operand when it is truthy,
  the text otherwise. A cell holds a number or a text.
\<close>

datatype cell = Number_cell int | Text_cell string

definition dma_cell :: "POI \<Rightarrow> cell" where
  "dma_cell poi =
     (case dma poi of
        None \<Rightarrow> Text_cell ''N/A''
      | Some d \<Rightarrow> if d \<noteq> 0 then Number_cell d else Text_cell ''N/A'')"

section \<open>\<open>components/Analytics.tsx\<close>\<close>

text \<open>
  The row types of the two analytics responses. A field whose name a record above
  already uses carries the prefix \<open>cp_\<close> or \<open>dd_\<close>.
\<close>

record ChainPerformance =
  cp_chain_name :: string
  cp_total_venues :: int
  cp_total_foot_traffic :: int
  cp_total_sales :: real
  avg_sales_per_visitor :: real
  cp_open_venues :: int
  cp_closed_venues :: int

record DMADistribution =
  dd_dma :: int
  venue_count :: int
  dd_total_foot_traffic :: int
  dd_total_sales :: real
  dd_unique_chains :: int

text \<open>
  \<open>loadAnalyticsData\<close> runs once, from the effect with the empty dependency list. It is
  a closure of the component, so the \<open>filters\<close> prop is in its scope; the two \<open>fetch\<close>
  calls of \<open>Promise.all\<close> are made in the order written.
\<close>

definition loadAnalyticsData :: "filters \<Rightarrow> network \<Rightarrow> network" where
  "loadAnalyticsData fs net =
     fetch ''/api/v1/pois/analytics/dma-distribution''
       (fetch ''/api/v1/pois/analytics/chain-performance'' net)"

text \<open>\<open>Array.prototype.slice(start, end)\<close> with indices that are not negative.\<close>

definition slice :: "nat \<Rightarrow> nat \<Rightarrow> 'a list \<Rightarrow> 'a list" where
  "slice b e xs = take (e - b) (drop b xs)"

text \<open>The \<open>data\<close> props of the three charts (lines 130, 173 and 199).\<close>

definition chain_performance_chart :: "ChainPerformance list \<Rightarrow> ChainPerformance list" where
  "chain_performance_chart chainData = slice 0 10 chainData"

definition dma_pie_chart :: "DMADistribution list \<Rightarrow> DMADistribution list" where
  "dma_pie_chart dmaData = slice 0 7 dmaData"

definition sales_per_visitor_chart :: "ChainPerformance list \<Rightarrow> ChainPerformance list" where
  "sales_per_visitor_chart chainData = slice 0 8 chainData"

section \<open>The query engine behind the requests\<close>

text \<open>
  The requests above are answered by the query engine of sections 3 and 4 of the
  specification, whose code is not part of the front-end sources. A venue record is a
  \<open>POI\<close> row.
\<close>

text \<open>
  Modelled from the spec: the filter specification of section 3 (the engine's filter
  structure is missing), an explicit structure with one optional field per predicate.
\<close>

record filter_spec =
  f_chain_name :: "string option"
  f_dma :: "int option"
  f_sub_category :: "string option"
  f_city :: "string option"
  f_state_code :: "string option"
  f_is_open :: "bool option"
  f_search :: "string option"

text \<open>
  Modelled from the spec: the empty filter specification of section 4.1 (no key present).
\<close>

definition empty_filter :: filter_spec where
  "empty_filter =
     \<lparr>f_chain_name = None, f_dma = None, f_sub_category = None, f_city = None,
      f_state_code = None, f_is_open = None, f_search = None\<rparr>"

text \<open>
  Modelled from the spec: case folding for the case-insensitive \<open>search\<close> predicate of
  section 4.1 (the engine's search code is missing), on the letters A to Z.
\<close>

definition lower_char :: "char \<Rightarrow> char" where
  "lower_char c =
     (case map_of (zip ''ABCDEFGHIJKLMNOPQRSTUVWXYZ'' ''abcdefghijklmnopqrstuvwxyz'') c of
        None \<Rightarrow> c
      | Some l \<Rightarrow> l)"

text \<open>
  Modelled from the spec: the substring test of the \<open>search\<close> predicate (section 4.1);
  \<open>starts_with xs ys\<close> holds when \<open>xs\<close> is a prefix of \<open>ys\<close>.
\<close>

fun starts_with :: "'a list \<Rightarrow> 'a list \<Rightarrow> bool" where
  "starts_with [] ys = True"
| "starts_with (x # xs) [] = False"
| "starts_with (x # xs) (y # ys) = (x = y \<and> starts_with xs ys)"

text \<open>
  Modelled from the spec: the substring test of the \<open>search\<close> predicate (section 4.1);
  \<open>contains xs ys\<close> holds when \<open>xs\<close> occurs in \<open>ys\<close> as a contiguous run.
\<close>

fun contains :: "'a list \<Rightarrow> 'a list \<Rightarrow> bool" where
  "contains xs [] = (xs = [])"
| "contains xs (y # ys) = (starts_with xs (y # ys) \<or> contains xs ys)"

text \<open>
  Modelled from the spec: the \<open>search\<close> predicate on one field (section 4.1), a
  case-insensitive substring match.
\<close>

definition search_hit :: "string \<Rightarrow> string \<Rightarrow> bool" where
  "search_hit q field = contains (map lower_char q) (map lower_char field)"

text \<open>
  Modelled from the spec: an exact, case-sensitive text predicate (section 4.1); an absent
  or empty value imposes no constraint (section 3).
\<close>

definition text_pred :: "string option \<Rightarrow> string \<Rightarrow> bool" where
  "text_pred p field =
     (case p of None \<Rightarrow> True | Some s \<Rightarrow> if s = '''' then True else field = s)"

text \<open>
  Modelled from the spec: filter matching (section 4.1; the engine's query code is
  missing). The present predicates are conjoined, \<open>state_code\<close> is compared with the
  state field of the row, and \<open>search\<close> is a disjunction over name, chain name, city and
  street address.
\<close>

definition matches :: "filter_spec \<Rightarrow> POI \<Rightarrow> bool" where
  "matches F v =
     (text_pred (f_chain_name F) (chain_name v)
      \<and> (case f_dma F of None \<Rightarrow> True | Some d \<Rightarrow> dma v = Some d)
      \<and> text_pred (f_sub_category F) (sub_category v)
      \<and> text_pred (f_city F) (city v)
      \<and> text_pred (f_state_code F) (state_name v)
      \<and> (case f_is_open F of None \<Rightarrow> True | Some b \<Rightarrow> is_open v = b)
      \<and> (case f_search F of
            None \<Rightarrow> True
          | Some q \<Rightarrow> if q = '''' then True
                      else search_hit q (name v) \<or> search_hit q (chain_name v)
                           \<or> search_hit q (city v) \<or> search_hit q (street_address v)))"

text \<open>
  Modelled from the spec: the contract of section 4.1, the subsequence of the rows that
  satisfy the filter, in their original order.
\<close>

definition matching_rows :: "filter_spec \<Rightarrow> POI list \<Rightarrow> POI list" where
  "matching_rows F rows = filter (matches F) rows"

text \<open>
  Modelled from the spec: the error of a malformed predicate value (sections 4.1 and 7;
  the boundary's code is missing).
\<close>

datatype validation_error = ValidationError

text \<open>
  Modelled from the spec: reading the \<open>dma\<close> parameter, an integer in decimal notation
  (section 4.1: a non-numeric value is malformed; the boundary's code is missing).
\<close>

definition decimal_of :: "string \<Rightarrow> int option" where
  "decimal_of t =
     (let neg = (t \<noteq> [] \<and> hd t = CHR ''-'');
          ds = (if neg then tl t else t)
      in if ds \<noteq> [] \<and> list_all is_digit ds
         then Some (if neg then - int (digits_value ds) else int (digits_value ds))
         else None)"

text \<open>
  Modelled from the spec: reading the \<open>is_open\<close> parameter (section 4.1: a non-boolean
  value is malformed; the boundary's code is missing).
\<close>

definition boolean_of :: "string \<Rightarrow> bool option" where
  "boolean_of t = (if t = ''true'' then Some True else if t = ''false'' then Some False else None)"

text \<open>
  Modelled from the spec: the boundary between a request and the engine (sections 3, 4.1
  and 7; the HTTP layer is missing). It receives the name/value pairs the client
  serialised; a key that is not sent is an absent predicate, the pairs \<open>page\<close> and
  \<open>limit\<close> are not predicates, and a malformed \<open>dma\<close> or \<open>is_open\<close> is rejected.
\<close>

definition filter_spec_of_params :: "params \<Rightarrow> validation_error + filter_spec" where
  "filter_spec_of_params ps =
     (case (case map_of ps ''dma'' of
              None \<Rightarrow> Inr None
            | Some t \<Rightarrow> (case decimal_of t of
                           None \<Rightarrow> Inl ValidationError
                         | Some d \<Rightarrow> Inr (Some d))) of
        Inl err \<Rightarrow> Inl err
      | Inr d \<Rightarrow>
          (case (case map_of ps ''is_open'' of
                   None \<Rightarrow> Inr None
                 | Some t \<Rightarrow> (case boolean_of t of
                                None \<Rightarrow> Inl ValidationError
                              | Some b \<Rightarrow> Inr (Some b))) of
             Inl err \<Rightarrow> Inl err
           | Inr b \<Rightarrow>
               Inr \<lparr>f_chain_name = map_of ps ''chain_name'', f_dma = d,
                    f_sub_category = map_of ps ''sub_category'', f_city = map_of ps ''city'',
                    f_state_code = map_of ps ''state_code'', f_is_open = b,
                    f_search = map_of ps ''search''\<rparr>))"

text \<open>
  Modelled from the spec: the summary statistics of a row subset (section 4.2; the
  engine's aggregation code is missing). The mean is 0 on the empty subset, and null DMA
  values are left out of the distinct count.
\<close>

definition summary_of_rows :: "POI list \<Rightarrow> SummaryStats" where
  "summary_of_rows rows =
     \<lparr>total_venues = int (length rows),
      total_foot_traffic = sum_list (map foot_traffic rows),
      total_sales = sum_list (map sales rows),
      avg_dwell_time =
        (if rows = [] then 0 else sum_list (map avg_dwell_time_min rows) / real (length rows)),
      open_venues = int (length (filter is_open rows)),
      closed_venues = int (length (filter (\<lambda>v. is_open v = False) rows)),
      unique_chains = int (length (remdups (map chain_name rows))),
      unique_dmas = int (length (remdups (List.map_filter dma rows)))\<rparr>"

text \<open>
  Modelled from the spec: the operation \<open>summary(filter)\<close> of section 6 (the engine's
  entry point is missing), over the rows loaded at start-up.
\<close>

definition summary :: "POI list \<Rightarrow> filter_spec \<Rightarrow> SummaryStats" where
  "summary rows F = summary_of_rows (matching_rows F rows)"

section \<open>Readings of the specification used for comparison\<close>

fun request_url :: "request \<Rightarrow> string" where
  "request_url (Axios_get url) = url"
| "request_url (Fetch url) = url"

text \<open>The query part of a URL: what follows the first question mark.\<close>

definition query_of :: "string \<Rightarrow> string" where
  "query_of url = (case dropWhile (\<lambda>c. c \<noteq> CHR ''?'') url of [] \<Rightarrow> [] | q # qs \<Rightarrow> qs)"

text \<open>
  The specification's reading of the analytics requests: the caller supplies the filter
  specification, that is, the query part of the request URL is the serialisation of the
  filter's parameters, as it is for the summary request of \<open>api.ts\<close>.
\<close>

definition spec_supplies_filter :: "filters \<Rightarrow> request \<Rightarrow> bool" where
  "spec_supplies_filter fs r =
     (case getSummaryStats_params fs of
        Inl err \<Rightarrow> False
      | Inr ps \<Rightarrow> query_of (request_url r) = params_toString ps)"

text \<open>
  The specification's reading of the sales-per-visitor chart: the rows re-sorted by
  \<open>avg_sales_per_visitor\<close>, largest first, and the first eight of them.
\<close>

definition spec_top8_by_sales_per_visitor ::
  "ChainPerformance list \<Rightarrow> ChainPerformance list" where
  "spec_top8_by_sales_per_visitor chainData =
     take 8 (sort_key (\<lambda>r. - avg_sales_per_visitor r) chainData)"

section \<open>The parameters a filter object contributes\<close>

text \<open>
  What one entry of the object adds to the parameter list, read off the guard and the
  \<open>toString\<close> call of the loop body; \<open>forEach_entries_eq\<close> below proves that the loop
  computes exactly this.
\<close>

fun entry_params :: "string \<times> jsval \<Rightarrow> params" where
  "entry_params (k, VUndefined) = []"
| "entry_params (k, VNull) = []"
| "entry_params (k, VStr s) = (if s = '''' then [] else [(k, s)])"
| "entry_params (k, VNum n) = [(k, jsnum_toString n)]"
| "entry_params (k, VBool b) = [(k, if b then ''true'' else ''false'')]"

section \<open>Example inputs\<close>

definition example_filters :: filters where
  "example_filters =
     [(''chain_name'', VStr ''Walmart''), (''city'', VStr ''''), (''is_open'', VBool False),
      (''dma'', VNum (Num 501)), (''search'', VUndefined)]"

definition example_dashboard :: dashboard where
  "example_dashboard =
     \<lparr>filters = [(''is_open'', VBool True), (''city'', VStr ''Austin'')],
      page = Num 3, rowsPerPage = Num 50\<rparr>"

text \<open>Nine chains in descending order of foot traffic, with ascending sales per visitor.\<close>

definition chain_row :: "string \<Rightarrow> int \<Rightarrow> real \<Rightarrow> ChainPerformance" where
  "chain_row c ft spv =
     \<lparr>cp_chain_name = c, cp_total_venues = 1, cp_total_foot_traffic = ft,
      cp_total_sales = real_of_int ft * spv, avg_sales_per_visitor = spv,
      cp_open_venues = 1, cp_closed_venues = 0\<rparr>"

definition example_chainData :: "ChainPerformance list" where
  "example_chainData =
     [chain_row ''A'' 900 1, chain_row ''B'' 800 2, chain_row ''C'' 700 3,
      chain_row ''D'' 600 4, chain_row ''E'' 500 5, chain_row ''F'' 400 6,
      chain_row ''G'' 300 7, chain_row ''H'' 200 8, chain_row ''I'' 100 9]"

text \<open>The three venues of the example of section 8 of the specification.\<close>

definition venue :: "string \<Rightarrow> string \<Rightarrow> int \<Rightarrow> real \<Rightarrow> bool \<Rightarrow> POI" where
  "venue ch ci ft sa op =
     \<lparr>entity_id = ch @ ci, name = '''', chain_name = ch, sub_category = '''', dma = None,
      city = ci, state_name = '''', foot_traffic = ft, is_open = op, sales = sa,
      avg_dwell_time_min = 0, area_sqft = 1, ft_per_sqft = real_of_int ft,
      street_address = '''', postal_code = '''', date_opened = None, date_closed = None\<rparr>"

definition example_rows :: "POI list" where
  "example_rows =
     [venue ''A'' ''X'' 100 500 True, venue ''A'' ''Y'' 200 300 False,
      venue ''B'' ''X'' 50 50 True]"

section \<open>The filter loop in closed form\<close>

lemma append_entry_eq: "append_entry e ps = Inr (ps @ entry_params e)"
  by (cases e rule: entry_params.cases) (simp_all add: append_entry_def append_def)

lemma forEach_entries_eq: "forEach_entries fs ps = Inr (ps @ concat (map entry_params fs))"
  by (induction fs arbitrary: ps) (simp_all add: append_entry_eq)

lemma getSummaryStats_params_eq:
  "getSummaryStats_params fs = Inr (concat (map entry_params fs))"
  by (simp add: getSummaryStats_params_def forEach_entries_eq new_URLSearchParams_def)

lemma getPOIs_params_eq:
  "getPOIs_params p l fs =
     Inr ((''page'', jsnum_toString p) # (''limit'', jsnum_toString l)
          # concat (map entry_params fs))"
  by (simp add: getPOIs_params_def forEach_entries_eq new_URLSearchParams_def append_def)

lemma getPOIs_url_eq:
  "getPOIs_url p l fs =
     Inr (''/api/v1/pois?'' @ params_toString
       ((''page'', jsnum_toString p) # (''limit'', jsnum_toString l)
         # concat (map entry_params fs)))"
  by (simp add: getPOIs_url_def getPOIs_params_eq)

lemma getSummaryStats_url_eq:
  "getSummaryStats_url fs =
     Inr (''/api/v1/pois/summary?'' @ params_toString (concat (map entry_params fs)))"
  by (simp add: getSummaryStats_url_def getSummaryStats_params_eq)

lemma entry_params_keys: "e \<in> set (entry_params (k, v)) \<Longrightarrow> fst e = k"
  by (cases "(k, v)" rule: entry_params.cases) (auto split: if_splits)

lemma entry_params_other:
  "k' \<noteq> k \<Longrightarrow> filter (\<lambda>e. fst e = k) (entry_params (k', v)) = []"
  by (auto simp: filter_empty_conv dest: entry_params_keys)

lemma entry_params_same:
  "filter (\<lambda>e. fst e = k) (entry_params (k, v)) = entry_params (k, v)"
  by (auto simp: filter_id_conv dest: entry_params_keys)

lemma params_of_absent_key:
  "k \<notin> fst ` set fs \<Longrightarrow> filter (\<lambda>e. fst e = k) (concat (map entry_params fs)) = []"
proof (induction fs)
  case Nil
  then show ?case by simp
next
  case (Cons a fs)
  obtain k' v' where a: "a = (k', v')" by (cases a)
  with Cons.prems have "k' \<noteq> k" by auto
  with Cons a show ?case by (simp add: entry_params_other)
qed

lemma params_of_key:
  "distinct (map fst fs) \<Longrightarrow> (k, v) \<in> set fs \<Longrightarrow>
     filter (\<lambda>e. fst e = k) (concat (map entry_params fs)) = entry_params (k, v)"
proof (induction fs)
  case Nil
  then show ?case by simp
next
  case (Cons a fs)
  obtain k' v' where a: "a = (k', v')" by (cases a)
  show ?case
  proof (cases "(k, v) = a")
    case True
    with Cons.prems a have "k \<notin> fst ` set fs" by auto
    then have "filter (\<lambda>e. fst e = k) (concat (map entry_params fs)) = []"
      by (rule params_of_absent_key)
    with True [symmetric] show ?thesis by (simp add: entry_params_same)
  next
    case False
    with Cons.prems have mem: "(k, v) \<in> set fs" by auto
    with Cons.prems a have "k' \<noteq> k" by (auto simp: image_iff)
    with Cons mem a show ?thesis by (simp add: entry_params_other)
  qed
qed

lemma params_keys_subset: "fst ` set (concat (map entry_params fs)) \<subseteq> fst ` set fs"
  by (auto dest: entry_params_keys simp: image_iff) (metis fst_conv entry_params_keys)

subsection \<open>Updating the filter object\<close>

lemma wf_object_newFilters_of: "wf_object fs \<Longrightarrow> wf_object (newFilters_of k v fs)"
  by (simp add: wf_object_def newFilters_of_def distinct_update distinct_delete)

lemma newFilters_of_keys:
  "fst ` set (newFilters_of k v fs) =
     (if v = VStr '''' \<or> v = VNull \<or> v = VUndefined then fst ` set fs - {k}
      else insert k (fst ` set fs))"
  by (auto simp: newFilters_of_def dom_update AList.delete_eq image_iff)

lemma newFilters_of_lookup:
  "map_of (newFilters_of k v fs) k =
     (if v = VStr '''' \<or> v = VNull \<or> v = VUndefined then None else Some v)"
  by (simp add: newFilters_of_def update_conv' delete_conv')

subsection \<open>The model on concrete inputs\<close>

lemma getPOIs_url_example:
  "getPOIs_url (Num 2) (Num 20) example_filters =
     Inr ''/api/v1/pois?page=2&limit=20&chain_name=Walmart&is_open=false&dma=501''"
  by (simp add: getPOIs_url_eq example_filters_def params_toString_def urlencode_def
      encode_char_def form_safe_def digit_char_def)

lemma getSummaryStats_url_example:
  "getSummaryStats_url [(''search'', VStr ''Sam's Club'')] =
     Inr ''/api/v1/pois/summary?search=Sam%27s+Club''"
  by (simp add: getSummaryStats_url_eq params_toString_def urlencode_def encode_char_def
      form_safe_def utf8_bytes_def percent_byte_def hex_digit_def)

lemma parseInt10_examples:
  "parseInt10 ''50'' = Num 50" "parseInt10 '' -7px'' = Num (- 7)" "parseInt10 ''abc'' = NaN"
  by (simp_all add: parseInt10_def is_space_def is_digit_def digits_value_def)

lemma search_example:
  "map (\<lambda>v. chain_name v @ city v)
     (matching_rows (empty_filter\<lparr>f_search := Some ''x''\<rparr>) example_rows) = [''AX'', ''BX'']"
  by (simp add: matching_rows_def matches_def text_pred_def empty_filter_def example_rows_def
      venue_def search_hit_def lower_char_def)

lemma summary_example:
  "summary example_rows (empty_filter\<lparr>f_chain_name := Some ''A''\<rparr>) =
     \<lparr>total_venues = 2, total_foot_traffic = 300, total_sales = 800, avg_dwell_time = 0,
      open_venues = 1, closed_venues = 1, unique_chains = 1, unique_dmas = 0\<rparr>"
  by (simp add: summary_def summary_of_rows_def matching_rows_def matches_def text_pred_def
      empty_filter_def example_rows_def venue_def)

lemma empty_filter_matches_every_row: "matching_rows empty_filter rows = rows"
  by (simp add: matching_rows_def matches_def text_pred_def empty_filter_def)

lemma delete_empty_entry:
  assumes "distinct (map fst fs)" and "(k, v) \<in> set fs" and "entry_params (k, v) = []"
  shows "concat (map entry_params (AList.delete k fs)) = concat (map entry_params fs)"
  using assms
proof (induction fs)
  case Nil
  then show ?case by simp
next
  case (Cons a fs)
  obtain k' v' where a: "a = (k', v')" by (cases a)
  show ?case
  proof (cases "(k, v) = a")
    case True
    with Cons.prems a have "k \<notin> fst ` set fs" by auto
    then have "AList.delete k fs = fs" by (rule delete_id)
    with True [symmetric] Cons.prems(3) show ?thesis by simp
  next
    case False
    with Cons.prems have mem: "(k, v) \<in> set fs" by auto
    with Cons.prems a have "k' \<noteq> k" by (auto simp: image_iff)
    with Cons mem a show ?thesis by simp
  qed
qed

lemma filter_spec_of_no_filter_params:
  "filter_spec_of_params [] = Inr empty_filter"
  "filter_spec_of_params [(''page'', a), (''limit'', b)] = Inr empty_filter"
  by (simp_all add: filter_spec_of_params_def empty_filter_def)

lemma summary_request_supplies_filter:
  assumes "getSummaryStats fs [] = Inr [r]"
  shows "spec_supplies_filter fs r"
proof -
  from assms have "r = Axios_get (''/api/v1/pois/summary?''
      @ params_toString (concat (map entry_params fs)))"
    by (simp add: getSummaryStats_def getSummaryStats_url_eq api_get_def)
  then show ?thesis
    by (simp add: spec_supplies_filter_def getSummaryStats_params_eq query_of_def)
qed

lemma chain_row_eq_iff:
  "(chain_row c ft spv = chain_row c' ft' spv') = (c = c' \<and> ft = ft' \<and> spv = spv')"
  by (auto simp: chain_row_def)

lemma avg_chain_row: "avg_sales_per_visitor (chain_row c ft spv) = spv"
  by (simp add: chain_row_def)

section \<open>Properties of the dashboard\<close>

subsection \<open>Analytics requests and the active filter\<close>

text \<open>
  C1, as stated: for every active filter specification the analytics view supplies it to
  the chain-performance and DMA-distribution operations. This fails: with the filter
  \<open>{chain_name: 'Walmart'}\<close> neither of the two requests of \<open>loadAnalyticsData\<close> carries
  the filter's parameter.
\<close>

theorem analytics_supplies_filter_counterexample:
  "map (spec_supplies_filter [(''chain_name'', VStr ''Walmart'')])
     (loadAnalyticsData [(''chain_name'', VStr ''Walmart'')] []) = [False, False]"
  by (simp add: loadAnalyticsData_def fetch_def spec_supplies_filter_def
      getSummaryStats_params_def new_URLSearchParams_def append_entry_def append_def
      query_of_def params_toString_def urlencode_def encode_char_def form_safe_def)

text \<open>
  C1, amended: for every filter specification the analytics view requests the
  chain-performance and the DMA-distribution breakdown at two fixed URLs that have no
  query part; the requests are the same as for the empty filter, so what the charts
  show does not depend on the filter.
\<close>

theorem analytics_requests_unfiltered:
  "loadAnalyticsData fs net =
     net @ [Fetch ''/api/v1/pois/analytics/chain-performance'',
            Fetch ''/api/v1/pois/analytics/dma-distribution'']
   \<and> loadAnalyticsData fs net = loadAnalyticsData [] net
   \<and> map (query_of \<circ> request_url) (loadAnalyticsData fs []) = ['''', '''']"
  by (simp add: loadAnalyticsData_def fetch_def query_of_def)

subsection \<open>The rows the charts display\<close>

text \<open>
  C2, as stated: the sales-per-visitor chart displays the top 8 chains under a ranking by
  sales per visitor. This fails: on nine chains listed by descending foot traffic whose
  sales per visitor ascend, the chart shows the first eight in the order received, and
  the chain with the highest sales per visitor is not among them.
\<close>

theorem sales_per_visitor_chart_counterexample:
  "sales_per_visitor_chart example_chainData =
     [chain_row ''A'' 900 1, chain_row ''B'' 800 2, chain_row ''C'' 700 3,
      chain_row ''D'' 600 4, chain_row ''E'' 500 5, chain_row ''F'' 400 6,
      chain_row ''G'' 300 7, chain_row ''H'' 200 8]
   \<and> spec_top8_by_sales_per_visitor example_chainData =
     [chain_row ''I'' 100 9, chain_row ''H'' 200 8, chain_row ''G'' 300 7,
      chain_row ''F'' 400 6, chain_row ''E'' 500 5, chain_row ''D'' 600 4,
      chain_row ''C'' 700 3, chain_row ''B'' 800 2]
   \<and> sales_per_visitor_chart example_chainData
       \<noteq> spec_top8_by_sales_per_visitor example_chainData"
  by (simp add: sales_per_visitor_chart_def spec_top8_by_sales_per_visitor_def slice_def
      example_chainData_def avg_chain_row chain_row_eq_iff)

text \<open>
  C2, amended: the charts consume the chain-performance rows by position. The
  foot-traffic and sales chart displays the first 10 rows of the response, the
  sales-per-visitor chart the first 8 rows of the same response in the same order, and
  the request names no sort key.
\<close>

theorem charts_show_leading_rows:
  "chain_performance_chart chainData = take 10 chainData
   \<and> sales_per_visitor_chart chainData = take 8 chainData
   \<and> sales_per_visitor_chart chainData = take 8 (chain_performance_chart chainData)
   \<and> map request_url (loadAnalyticsData fs []) =
       [''/api/v1/pois/analytics/chain-performance'',
        ''/api/v1/pois/analytics/dma-distribution'']"
  by (simp add: chain_performance_chart_def sales_per_visitor_chart_def slice_def
      loadAnalyticsData_def fetch_def)

subsection \<open>Serialising the filter object\<close>

text \<open>
  C3. In a filter object, a key whose value is undefined, null or the empty string imposes
  no constraint: it is left out of the parameters sent with the venue query and the
  summary request, which are the parameters of the object without that key. Every other
  key is sent exactly once, with the text of its value. The empty filter object sends no
  filter parameter, so the engine receives the empty filter specification and matches
  every row. Setting a key to one of the three empty values removes it from the object.
\<close>

theorem empty_values_impose_no_constraint:
  assumes "wf_object fs"
  shows "\<exists>ps. getSummaryStats_params fs = Inr ps
     \<and> getPOIs_params p l fs =
         Inr ((''page'', jsnum_toString p) # (''limit'', jsnum_toString l) # ps)
     \<and> (\<forall>k v. (k, v) \<in> set fs \<longrightarrow>
          (if v = VUndefined \<or> v = VNull \<or> v = VStr ''''
           then k \<notin> fst ` set ps \<and> getSummaryStats_params (AList.delete k fs) = Inr ps
           else \<exists>s. toString v = Inr s \<and> filter (\<lambda>e. fst e = k) ps = [(k, s)]))
     \<and> fst ` set ps \<subseteq> fst ` set fs
     \<and> (fs = [] \<longrightarrow>
          ps = []
          \<and> filter_spec_of_params ps = Inr empty_filter
          \<and> filter_spec_of_params
               ((''page'', jsnum_toString p) # (''limit'', jsnum_toString l) # ps)
              = Inr empty_filter
          \<and> matching_rows empty_filter rows = rows
          \<and> total_venues (summary rows empty_filter) = int (length rows))
     \<and> (v0 = VUndefined \<or> v0 = VNull \<or> v0 = VStr ''''
          \<longrightarrow> k0 \<notin> fst ` set (newFilters_of k0 v0 fs))"
proof -
  let ?ps = "concat (map entry_params fs)"
  have dist: "distinct (map fst fs)"
    using assms by (simp add: wf_object_def)
  have each: "if v = VUndefined \<or> v = VNull \<or> v = VStr ''''
       then k \<notin> fst ` set ?ps \<and> getSummaryStats_params (AList.delete k fs) = Inr ?ps
       else \<exists>s. toString v = Inr s \<and> filter (\<lambda>e. fst e = k) ?ps = [(k, s)]"
    if mem: "(k, v) \<in> set fs" for k v
  proof -
    have sel: "filter (\<lambda>e. fst e = k) ?ps = entry_params (k, v)"
      using dist mem by (rule params_of_key)
    show ?thesis
    proof (cases "v = VUndefined \<or> v = VNull \<or> v = VStr ''''")
      case True
      then have nil: "entry_params (k, v) = []" by auto
      with sel have "filter (\<lambda>e. fst e = k) ?ps = []" by simp
      then have absent: "k \<notin> fst ` set ?ps"
        by (auto simp: filter_empty_conv)
      have "concat (map entry_params (AList.delete k fs)) = ?ps"
        using dist mem nil by (rule delete_empty_entry)
      then have "getSummaryStats_params (AList.delete k fs) = Inr ?ps"
        by (simp add: getSummaryStats_params_eq)
      with True absent show ?thesis by simp
    next
      case False
      then have "\<exists>s. toString v = Inr s \<and> entry_params (k, v) = [(k, s)]"
        by (cases v) auto
      with sel False show ?thesis by auto
    qed
  qed
  have del: "v0 = VUndefined \<or> v0 = VNull \<or> v0 = VStr ''''
      \<longrightarrow> k0 \<notin> fst ` set (newFilters_of k0 v0 fs)"
    by (auto simp: newFilters_of_keys)
  have sub: "fst ` set ?ps \<subseteq> fst ` set fs"
    by (rule params_keys_subset)
  have every: "matching_rows empty_filter rows = rows"
    by (rule empty_filter_matches_every_row)
  have count: "total_venues (summary rows empty_filter) = int (length rows)"
    by (simp add: summary_def summary_of_rows_def every)
  have emp: "fs = [] \<longrightarrow>
          ?ps = []
          \<and> filter_spec_of_params ?ps = Inr empty_filter
          \<and> filter_spec_of_params
               ((''page'', jsnum_toString p) # (''limit'', jsnum_toString l) # ?ps)
              = Inr empty_filter
          \<and> matching_rows empty_filter rows = rows
          \<and> total_venues (summary rows empty_filter) = int (length rows)"
    using every count by (simp add: filter_spec_of_no_filter_params)
  have s: "getSummaryStats_params fs = Inr ?ps"
    by (rule getSummaryStats_params_eq)
  have g: "getPOIs_params p l fs =
      Inr ((''page'', jsnum_toString p) # (''limit'', jsnum_toString l) # ?ps)"
    by (rule getPOIs_params_eq)
  from s g each sub emp del show ?thesis
    by blast
qed

theorem empty_values_impose_no_constraint_witness:
  "wf_object example_filters
   \<and> (\<exists>ps. getSummaryStats_params example_filters = Inr ps
        \<and> getPOIs_params (Num 2) (Num 20) example_filters =
            Inr ((''page'', ''2'') # (''limit'', ''20'') # ps)
        \<and> ''city'' \<notin> fst ` set ps
        \<and> getSummaryStats_params (AList.delete ''city'' example_filters) = Inr ps
        \<and> ''search'' \<notin> fst ` set ps
        \<and> filter (\<lambda>e. fst e = ''is_open'') ps = [(''is_open'', ''false'')]
        \<and> filter (\<lambda>e. fst e = ''dma'') ps = [(''dma'', ''501'')]
        \<and> filter (\<lambda>e. fst e = ''chain_name'') ps = [(''chain_name'', ''Walmart'')])
   \<and> ''city'' \<notin> fst ` set (newFilters_of ''city'' VNull example_filters)
   \<and> wf_object []
   \<and> getSummaryStats_params [] = Inr []
   \<and> getPOIs_params (Num 1) (Num 20) [] = Inr [(''page'', ''1''), (''limit'', ''20'')]
   \<and> filter_spec_of_params [(''page'', ''1''), (''limit'', ''20'')] = Inr empty_filter
   \<and> matching_rows empty_filter example_rows = example_rows
   \<and> total_venues (summary example_rows empty_filter) = 3"
proof -
  have wf: "wf_object example_filters"
    by (simp add: wf_object_def example_filters_def)
  have wf0: "wf_object []"
    by (simp add: wf_object_def)
  from empty_values_impose_no_constraint [OF wf, of "Num 2" "Num 20" _ VNull "''city''"]
  obtain ps where s: "getSummaryStats_params example_filters = Inr ps"
    and g: "getPOIs_params (Num 2) (Num 20) example_filters =
        Inr ((''page'', jsnum_toString (Num 2)) # (''limit'', jsnum_toString (Num 20)) # ps)"
    and each: "\<And>k v. (k, v) \<in> set example_filters \<Longrightarrow>
          (if v = VUndefined \<or> v = VNull \<or> v = VStr ''''
           then k \<notin> fst ` set ps
                \<and> getSummaryStats_params (AList.delete k example_filters) = Inr ps
           else \<exists>s. toString v = Inr s \<and> filter (\<lambda>e. fst e = k) ps = [(k, s)])"
    and del: "''city'' \<notin> fst ` set (newFilters_of ''city'' VNull example_filters)"
    by blast
  have c: "''city'' \<notin> fst ` set ps
      \<and> getSummaryStats_params (AList.delete ''city'' example_filters) = Inr ps"
    using each [of "''city''" "VStr ''''"] by (simp add: example_filters_def)
  have u: "''search'' \<notin> fst ` set ps"
    using each [of "''search''" VUndefined] by (simp add: example_filters_def)
  have o: "filter (\<lambda>e. fst e = ''is_open'') ps = [(''is_open'', ''false'')]"
    using each [of "''is_open''" "VBool False"] by (simp add: example_filters_def)
  have d: "filter (\<lambda>e. fst e = ''dma'') ps = [(''dma'', ''501'')]"
    using each [of "''dma''" "VNum (Num 501)"] by (simp add: example_filters_def digit_char_def)
  have n: "filter (\<lambda>e. fst e = ''chain_name'') ps = [(''chain_name'', ''Walmart'')]"
    using each [of "''chain_name''" "VStr ''Walmart''"] by (simp add: example_filters_def)
  have g': "getPOIs_params (Num 2) (Num 20) example_filters =
        Inr ((''page'', ''2'') # (''limit'', ''20'') # ps)"
    using g by (simp add: digit_char_def)
  have first: "\<exists>ps. getSummaryStats_params example_filters = Inr ps
        \<and> getPOIs_params (Num 2) (Num 20) example_filters =
            Inr ((''page'', ''2'') # (''limit'', ''20'') # ps)
        \<and> ''city'' \<notin> fst ` set ps
        \<and> getSummaryStats_params (AList.delete ''city'' example_filters) = Inr ps
        \<and> ''search'' \<notin> fst ` set ps
        \<and> filter (\<lambda>e. fst e = ''is_open'') ps = [(''is_open'', ''false'')]
        \<and> filter (\<lambda>e. fst e = ''dma'') ps = [(''dma'', ''501'')]
        \<and> filter (\<lambda>e. fst e = ''chain_name'') ps = [(''chain_name'', ''Walmart'')]"
    using s g' c u o d n by blast
  from empty_values_impose_no_constraint [OF wf0, of "Num 1" "Num 20" example_rows]
  obtain qs where s0: "getSummaryStats_params [] = Inr qs"
    and g0: "getPOIs_params (Num 1) (Num 20) [] =
        Inr ((''page'', jsnum_toString (Num 1)) # (''limit'', jsnum_toString (Num 20)) # qs)"
    and q0: "qs = []"
    and f0: "filter_spec_of_params
        ((''page'', jsnum_toString (Num 1)) # (''limit'', jsnum_toString (Num 20)) # qs)
        = Inr empty_filter"
    and m0: "matching_rows empty_filter example_rows = example_rows"
    and t0: "total_venues (summary example_rows empty_filter) = int (length example_rows)"
    by blast
  have s0': "getSummaryStats_params [] = Inr []"
    using s0 q0 by simp
  have g0': "getPOIs_params (Num 1) (Num 20) [] = Inr [(''page'', ''1''), (''limit'', ''20'')]"
    using g0 q0 by (simp add: digit_char_def)
  have f0': "filter_spec_of_params [(''page'', ''1''), (''limit'', ''20'')] = Inr empty_filter"
    using f0 q0 by (simp add: digit_char_def)
  have t0': "total_venues (summary example_rows empty_filter) = 3"
    using t0 by (simp add: example_rows_def)
  from wf first del wf0 s0' g0' f0' m0 t0' show ?thesis
    by blast
qed

subsection \<open>Summary counts\<close>

text \<open>
  C4. For every filter specification the open and the closed venue counts of the summary
  add up to its total venue count: every counted venue is either open or closed.
\<close>

theorem summary_open_closed_total:
  "open_venues (summary rows F) + closed_venues (summary rows F) = total_venues (summary rows F)"
proof -
  have "length (filter is_open xs) + length (filter (\<lambda>v. is_open v = False) xs) = length xs"
    for xs :: "POI list"
    by (induction xs) simp_all
  then show ?thesis
    by (simp add: summary_def summary_of_rows_def flip: of_nat_add)
qed

subsection \<open>Page numbers\<close>

text \<open>
  C5. Pagination is 1-based towards the API and zero-based in the table: a page change
  to index \<open>n\<close> makes the next venue query ask for page \<open>n + 1\<close>, a response that reports
  page \<open>p\<close> is shown at index \<open>p - 1\<close>, and the two conversions undo each other.
\<close>

theorem page_index_round_trip:
  "page (handleChangePage n s) = Num (n + 1)
   \<and> getPOIs_params (page (handleChangePage n s)) (rowsPerPage (handleChangePage n s))
        (filters (handleChangePage n s))
      = Inr ((''page'', jsnum_toString (Num (n + 1)))
             # (''limit'', jsnum_toString (rowsPerPage s))
             # concat (map entry_params (filters s)))
   \<and> TablePagination_page d = response_page d - 1
   \<and> TablePagination_page (d\<lparr>response_page := n + 1\<rparr>) = n
   \<and> page (handleChangePage (TablePagination_page d) s) = Num (response_page d)"
  by (simp add: handleChangePage_def handlePageChange_def TablePagination_page_def
      getPOIs_params_eq)

subsection \<open>Autocomplete\<close>

text \<open>
  C6. Typing into the search box sends an autocomplete request exactly when the text has
  at least two code units; for a shorter text the suggestion list is emptied and nothing
  is sent.
\<close>

theorem autocomplete_request_iff_two_chars:
  "snd (handleSearchChange v reply (ui, net)) =
     (if 2 \<le> length v then net @ [Axios_get (getAutocomplete_url v None)] else net)
   \<and> (if 2 \<le> length v
      then autocompleteOptions (fst (handleSearchChange v reply (ui, net))) =
             (case reply of None \<Rightarrow> autocompleteOptions ui | Some suggestions \<Rightarrow> suggestions)
      else autocompleteOptions (fst (handleSearchChange v reply (ui, net))) = [])
   \<and> searchValue (fst (handleSearchChange v reply (ui, net))) = v"
  by (simp add: handleSearchChange_def getAutocomplete_def api_get_def Let_def
      split: option.split)

subsection \<open>Requests as functions of their arguments\<close>

text \<open>
  C7. The request that \<open>getPOIs\<close> builds from page, limit and filters, and the one
  \<open>getSummaryStats\<close> builds from the filters, is determined by these arguments alone:
  whatever was sent before, a call sends the same URL, and a second call with the same
  arguments sends that URL again.
\<close>

theorem request_is_function_of_arguments:
  "\<exists>url surl.
      getPOIs_url p l fs = Inr url
    \<and> getSummaryStats_url fs = Inr surl
    \<and> getPOIs p l fs net = Inr (net @ [Axios_get url])
    \<and> getPOIs p l fs net' = Inr (net' @ [Axios_get url])
    \<and> getPOIs p l fs (net @ [Axios_get url]) = Inr (net @ [Axios_get url, Axios_get url])
    \<and> getSummaryStats fs net = Inr (net @ [Axios_get surl])
    \<and> getSummaryStats fs net' = Inr (net' @ [Axios_get surl])
    \<and> getSummaryStats fs (net @ [Axios_get surl]) =
        Inr (net @ [Axios_get surl, Axios_get surl])"
  by (simp add: getPOIs_def getSummaryStats_def getPOIs_url_eq getSummaryStats_url_eq
      api_get_def)

subsection \<open>Returning to the first page\<close>

text \<open>
  C8. After the filter specification or the page size changes, the next venue query asks
  for page 1, whatever page was selected before.
\<close>

theorem page_resets_to_first:
  "page (handleFiltersChange newFilters s) = Num 1
   \<and> page (handleRowsPerPageChange n s) = Num 1
   \<and> page (handleChangeRowsPerPage v s) = Num 1
   \<and> page (handleFilterChange k val s) = Num 1
   \<and> page (clearAllFilters s) = Num 1
   \<and> getPOIs_params (page (handleFiltersChange newFilters s))
        (rowsPerPage (handleFiltersChange newFilters s))
        (filters (handleFiltersChange newFilters s))
      = Inr ((''page'', ''1'') # (''limit'', jsnum_toString (rowsPerPage s))
             # concat (map entry_params newFilters))
   \<and> getPOIs_params (page (handleChangeRowsPerPage v s))
        (rowsPerPage (handleChangeRowsPerPage v s))
        (filters (handleChangeRowsPerPage v s))
      = Inr ((''page'', ''1'') # (''limit'', jsnum_toString (parseInt10 v))
             # concat (map entry_params (filters s)))
   \<and> loadPOIData (handleFiltersChange newFilters s) net
      = Inr (net @ [Axios_get (''/api/v1/pois?'' @ params_toString
           ((''page'', ''1'') # (''limit'', jsnum_toString (rowsPerPage s))
             # concat (map entry_params newFilters)))])
   \<and> loadPOIData (handleChangeRowsPerPage v s) net
      = Inr (net @ [Axios_get (''/api/v1/pois?'' @ params_toString
           ((''page'', ''1'') # (''limit'', jsnum_toString (parseInt10 v))
             # concat (map entry_params (filters s))))])"
  by (simp add: handleFiltersChange_def handleRowsPerPageChange_def
      handleChangeRowsPerPage_def handlePageChange_def handleFilterChange_def
      clearAllFilters_def loadPOIData_def getPOIs_def getPOIs_url_eq getPOIs_params_eq
      api_get_def digit_char_def)

subsection \<open>Closed venues only\<close>

text \<open>
  C9. Choosing "Closed Only" stores \<open>is_open = false\<close> in the filter object and the
  requests carry the parameter \<open>is_open=false\<close> exactly once: neither the update of the
  filter object nor the serialisation treats the boolean false as an empty value. The
  key is absent, and no \<open>is_open\<close> parameter is sent, only after the choice "All Venues",
  which passes undefined.
\<close>

theorem closed_only_is_transmitted:
  assumes "wf_object (filters s)"
  shows "map_of (filters (status_onChange ''false'' s)) ''is_open'' = Some (VBool False)
     \<and> (\<exists>ps. getSummaryStats_params (filters (status_onChange ''false'' s)) = Inr ps
          \<and> getPOIs_params pg sz (filters (status_onChange ''false'' s)) =
              Inr ((''page'', jsnum_toString pg) # (''limit'', jsnum_toString sz) # ps)
          \<and> filter (\<lambda>e. fst e = ''is_open'') ps = [(''is_open'', ''false'')])
     \<and> (\<exists>ps. getSummaryStats_params (filters (status_onChange '''' s)) = Inr ps
          \<and> getPOIs_params pg sz (filters (status_onChange '''' s)) =
              Inr ((''page'', jsnum_toString pg) # (''limit'', jsnum_toString sz) # ps)
          \<and> ''is_open'' \<notin> fst ` set ps)
     \<and> (''is_open'' \<in> fst ` set (filters (status_onChange v s))) = (v \<noteq> '''')
     \<and> append_entry (k, VBool False) qs = Inr (qs @ [(k, ''false'')])
     \<and> newFilters_of k (VBool False) fs = AList.update k (VBool False) fs"
proof -
  let ?f = "filters (status_onChange ''false'' s)"
  let ?e = "filters (status_onChange '''' s)"
  have f_eq: "?f = newFilters_of ''is_open'' (VBool False) (filters s)"
    by (simp add: status_onChange_def handleFilterChange_def handleFiltersChange_def)
  have e_eq: "?e = newFilters_of ''is_open'' VUndefined (filters s)"
    by (simp add: status_onChange_def handleFilterChange_def handleFiltersChange_def)
  have look: "map_of ?f ''is_open'' = Some (VBool False)"
    by (simp add: f_eq newFilters_of_lookup)
  have wf_f: "distinct (map fst ?f)"
    using assms wf_object_newFilters_of [of "filters s"] by (simp add: f_eq wf_object_def)
  have mem: "(''is_open'', VBool False) \<in> set ?f"
    using look by (rule map_of_SomeD)
  have sel: "filter (\<lambda>e. fst e = ''is_open'') (concat (map entry_params ?f)) =
      [(''is_open'', ''false'')]"
    using params_of_key [OF wf_f mem] by simp
  have "''is_open'' \<notin> fst ` set ?e"
    by (simp add: e_eq newFilters_of_keys)
  then have abs: "''is_open'' \<notin> fst ` set (concat (map entry_params ?e))"
    using params_keys_subset [of ?e] by blast
  have keys: "(''is_open'' \<in> fst ` set (filters (status_onChange v s))) = (v \<noteq> '''')"
    by (simp add: status_onChange_def handleFilterChange_def handleFiltersChange_def
        newFilters_of_keys)
  have ser: "append_entry (k, VBool False) qs = Inr (qs @ [(k, ''false'')])"
    by (simp add: append_entry_def append_def)
  have upd: "newFilters_of k (VBool False) fs = AList.update k (VBool False) fs"
    by (simp add: newFilters_of_def)
  from look sel abs keys ser upd show ?thesis
    by (simp only: getSummaryStats_params_eq getPOIs_params_eq) blast
qed

theorem closed_only_is_transmitted_witness:
  "wf_object (filters example_dashboard)
   \<and> filters (status_onChange ''false'' example_dashboard) =
       [(''is_open'', VBool False), (''city'', VStr ''Austin'')]
   \<and> map_of (filters (status_onChange ''false'' example_dashboard)) ''is_open''
       = Some (VBool False)
   \<and> (''is_open'' \<in> fst ` set (filters (status_onChange '''' example_dashboard))) = False"
proof -
  have wf: "wf_object (filters example_dashboard)"
    by (simp add: wf_object_def example_dashboard_def)
  have ev: "filters (status_onChange ''false'' example_dashboard) =
       [(''is_open'', VBool False), (''city'', VStr ''Austin'')]"
    by (simp add: status_onChange_def handleFilterChange_def handleFiltersChange_def
        newFilters_of_def example_dashboard_def)
  from closed_only_is_transmitted [OF wf, of _ _ "''''"] wf ev show ?thesis
    by simp
qed

subsection \<open>The DMA cell\<close>

text \<open>
  C10. In the venue table the DMA cell shows the text N/A exactly when the row's \<open>dma\<close>
  is null or the number 0, and shows the number itself for every other value; a row
  with DMA code 0 is therefore displayed like a row with no DMA.
\<close>

theorem dma_cell_not_available:
  "(dma_cell poi = Text_cell ''N/A'') = (dma poi = None \<or> dma poi = Some 0)
   \<and> dma_cell (poi\<lparr>dma := Some d\<rparr>) = (if d = 0 then Text_cell ''N/A'' else Number_cell d)
   \<and> dma_cell (poi\<lparr>dma := Some 0\<rparr>) = dma_cell (poi\<lparr>dma := None\<rparr>)"
  by (simp add: dma_cell_def split: option.split)

end
